theory Spec2Isabelle
  imports Complex_Main
begin

section \<open>The values the wrapper handles\<close>

text \<open>
  The wrapper of \<^verbatim>\<open>droidrun_wrapper.py\<close> exchanges JSON documents with the Android side
  through three files. A decoded document is a Python value built from \<^verbatim>\<open>None\<close>, booleans,
  integers, floats, strings, lists and dictionaries. A float is kept by its exact value (every
  finite float is a rational number), so that Python's comparison of an integer with a float,
  which is exact, can be written down. A dictionary is an association list in key order; a
  lookup takes the first pair with the key.

  Strings are byte strings: code points beyond ASCII are not modelled as single characters,
  and only ASCII white space and ASCII digits are recognised.
\<close>

datatype pyfloat = Fin rat | PosInf | NegInf | NaN

datatype json =
    JNull
  | JBool bool
  | JInt int
  | JFloat pyfloat
  | JStr string
  | JList "json list"
  | JObj "(string \<times> json) list"

text \<open>Python exceptions, one constructor per class, each with its message.\<close>

datatype exn =
    AttributeError string
  | TypeError string
  | ValueError string
  | TimeoutError string
  | Exception string

fun exn_str :: "exn \<Rightarrow> string" where
  "exn_str (AttributeError m) = m"
| "exn_str (TypeError m) = m"
| "exn_str (ValueError m) = m"
| "exn_str (TimeoutError m) = m"
| "exn_str (Exception m) = m"

text \<open>
  The library functions the source calls and this repository does not define:
  \<^verbatim>\<open>json.loads\<close> (\<open>None\<close> stands for \<^verbatim>\<open>JSONDecodeError\<close>), \<^verbatim>\<open>json.dumps\<close>, \<^verbatim>\<open>str()\<close> of a
  decoded value that is not a string, \<^verbatim>\<open>repr()\<close> of a string, and \<^verbatim>\<open>base64.b64decode\<close>.
  Every function below takes them as the parameter \<open>L\<close>.
\<close>

record pylib =
  loads :: "string \<Rightarrow> json option"
  dumps :: "json \<Rightarrow> string"
  str_other :: "json \<Rightarrow> string"
  repr_str :: "string \<Rightarrow> string"
  b64decode :: "json \<Rightarrow> exn + string"

subsection \<open>Python's operations on decoded values\<close>

text \<open>\<^verbatim>\<open>bool(v)\<close>: the truth value Python gives to \<open>v\<close> in \<^verbatim>\<open>if v:\<close> and \<^verbatim>\<open>not v\<close>.\<close>

fun truthy :: "json \<Rightarrow> bool" where
  "truthy JNull = False"
| "truthy (JBool b) = b"
| "truthy (JInt i) = (i \<noteq> 0)"
| "truthy (JFloat f) = (f \<noteq> Fin 0)"
| "truthy (JStr s) = (s \<noteq> [])"
| "truthy (JList xs) = (xs \<noteq> [])"
| "truthy (JObj kvs) = (kvs \<noteq> [])"

text \<open>\<^verbatim>\<open>type(v).__name__\<close>, as it appears in the messages of the interpreter.\<close>

fun type_name :: "json \<Rightarrow> string" where
  "type_name JNull = ''NoneType''"
| "type_name (JBool b) = ''bool''"
| "type_name (JInt i) = ''int''"
| "type_name (JFloat f) = ''float''"
| "type_name (JStr s) = ''str''"
| "type_name (JList xs) = ''list''"
| "type_name (JObj kvs) = ''dict''"

definition sq :: "string \<Rightarrow> string" where
  "sq s = CHR 0x27 # s @ [CHR 0x27]"

definition no_attribute :: "json \<Rightarrow> string \<Rightarrow> exn" where
  "no_attribute v a = AttributeError (sq (type_name v) @ '' object has no attribute '' @ sq a)"

definition not_iterable :: "json \<Rightarrow> exn" where
  "not_iterable v = TypeError (sq (type_name v) @ '' object is not iterable'')"

text \<open>\<^verbatim>\<open>d.get(k, default)\<close> on the pairs of a dictionary.\<close>

fun dict_get :: "(string \<times> json) list \<Rightarrow> string \<Rightarrow> json \<Rightarrow> json" where
  "dict_get [] k d = d"
| "dict_get ((k', v) # kvs) k d = (if k' = k then v else dict_get kvs k d)"

text \<open>\<^verbatim>\<open>v == n\<close> for an integer \<open>n\<close>: \<^verbatim>\<open>True == 1\<close>, \<^verbatim>\<open>False == 0\<close> and \<^verbatim>\<open>3.0 == 3\<close> hold in Python.\<close>

fun py_eq_int :: "json \<Rightarrow> int \<Rightarrow> bool" where
  "py_eq_int (JInt m) n = (m = n)"
| "py_eq_int (JBool b) n = ((if b then 1 else 0) = n)"
| "py_eq_int (JFloat (Fin q)) n = (q = of_int n)"
| "py_eq_int v n = False"

text \<open>\<^verbatim>\<open>len(v)\<close>.\<close>

fun py_len :: "json \<Rightarrow> exn + nat" where
  "py_len (JStr s) = Inr (length s)"
| "py_len (JList xs) = Inr (length xs)"
| "py_len (JObj kvs) = Inr (length kvs)"
| "py_len v = Inl (TypeError (''object of type '' @ sq (type_name v) @ '' has no len()''))"

text \<open>\<^verbatim>\<open>str(v)\<close>, as an f-string formats \<open>v\<close>.\<close>

definition py_str :: "pylib \<Rightarrow> json \<Rightarrow> string" where
  "py_str L v = (case v of JStr s \<Rightarrow> s | _ \<Rightarrow> str_other L v)"

definition str_bool :: "bool \<Rightarrow> string" where
  "str_bool b = (if b then ''True'' else ''False'')"

definition digit_char :: "nat \<Rightarrow> char" where
  "digit_char n = char_of (48 + n)"

fun str_nat :: "nat \<Rightarrow> string" where
  "str_nat n = (if n < 10 then [digit_char n] else str_nat (n div 10) @ [digit_char (n mod 10)])"

declare str_nat.simps [simp del]

text \<open>\<^verbatim>\<open>str(i)\<close> for an integer.\<close>

definition str_int :: "int \<Rightarrow> string" where
  "str_int i = (if i < 0 then CHR ''-'' # str_nat (nat (- i)) else str_nat (nat i))"

subsection \<open>Strings: strip, split and int\<close>

definition py_isspace :: "char \<Rightarrow> bool" where
  "py_isspace c = ((of_char c :: nat) \<in> {9, 10, 11, 12, 13, 28, 29, 30, 31, 32})"

text \<open>\<^verbatim>\<open>s.strip()\<close>.\<close>

definition strip :: "string \<Rightarrow> string" where
  "strip s = rev (dropWhile py_isspace (rev (dropWhile py_isspace s)))"

text \<open>\<^verbatim>\<open>s.split(sep)\<close> for a separator of one character.\<close>

fun split_on :: "char \<Rightarrow> string \<Rightarrow> string list" where
  "split_on sep [] = [[]]"
| "split_on sep (c # cs) =
     (if c = sep then [] # split_on sep cs
      else (case split_on sep cs of [] \<Rightarrow> [[c]] | p # ps \<Rightarrow> (c # p) # ps))"

definition is_digit :: "char \<Rightarrow> bool" where
  "is_digit c = (48 \<le> (of_char c :: nat) \<and> (of_char c :: nat) \<le> 57)"

definition digit_val :: "char \<Rightarrow> nat" where
  "digit_val c = of_char c - 48"

text \<open>
  The digits of an integer literal after the first one: a digit, or one underscore followed
  by a digit.
\<close>

fun parse_digits :: "nat \<Rightarrow> string \<Rightarrow> nat option" where
  "parse_digits acc [] = Some acc"
| "parse_digits acc [c] = (if is_digit c then Some (10 * acc + digit_val c) else None)"
| "parse_digits acc (c # d # ds) =
     (if is_digit c then parse_digits (10 * acc + digit_val c) (d # ds)
      else if c = CHR ''_'' \<and> is_digit d then parse_digits (10 * acc + digit_val d) ds
      else None)"

definition parse_unsigned :: "string \<Rightarrow> nat option" where
  "parse_unsigned s =
     (case s of [] \<Rightarrow> None
      | c # cs \<Rightarrow> if is_digit c then parse_digits (digit_val c) cs else None)"

text \<open>
  \<^verbatim>\<open>int(s)\<close> in base 10; \<open>None\<close> stands for the \<^verbatim>\<open>ValueError\<close>. (The interpreter's limit on
  the number of digits of a literal is not modelled.)
\<close>

definition py_int :: "string \<Rightarrow> int option" where
  "py_int s =
     (case strip s of [] \<Rightarrow> None
      | c # cs \<Rightarrow>
          if c = CHR ''-'' then map_option (\<lambda>n. - int n) (parse_unsigned cs)
          else if c = CHR ''+'' then map_option int (parse_unsigned cs)
          else map_option int (parse_unsigned (c # cs)))"

text \<open>The list comprehension \<^verbatim>\<open>[int(x) for x in pieces]\<close>: the first bad piece raises.\<close>

fun ints_of :: "pylib \<Rightarrow> string list \<Rightarrow> exn + int list" where
  "ints_of L [] = Inr []"
| "ints_of L (x # xs) =
     (case py_int x of
        None \<Rightarrow> Inl (ValueError (''invalid literal for int() with base 10: '' @ repr_str L x))
      | Some i \<Rightarrow> (case ints_of L xs of Inl e \<Rightarrow> Inl e | Inr is \<Rightarrow> Inr (i # is)))"

section \<open>The wrapper object and the world around it\<close>

text \<open>
  The fields of \<^verbatim>\<open>AndroidToolsWrapper\<close> as \<^verbatim>\<open>__init__\<close> sets them. The cache holds whatever
  value the state file gave for \<^verbatim>\<open>a11yTree\<close>.
\<close>

record wrapper =
  state_file :: string
  actions_file :: string
  result_file :: string
  poll_interval :: rat
  clickable_elements_cache :: json
  memory :: "string list"
  success :: "bool option"
  reason :: "string option"
  finished :: bool
  save_trajectories :: string

definition init :: "string \<Rightarrow> string \<Rightarrow> string \<Rightarrow> rat \<Rightarrow> wrapper" where
  "init sf af rf d =
     \<lparr>state_file = sf, actions_file = af, result_file = rf, poll_interval = d,
      clickable_elements_cache = JList [], memory = [], success = None, reason = None,
      finished = False, save_trajectories = ''none''\<rparr>"

text \<open>
  The world is the file system (a path has a text or does not exist), the clock that
  \<^verbatim>\<open>time.time()\<close> reads, in seconds, and a script of what happens during each coming
  \<^verbatim>\<open>asyncio.sleep\<close>: the files the Android side writes or removes meanwhile, and by how much
  the sleep overshoots the requested delay. When the script is used up the other side stays
  silent and every sleep takes exactly the requested delay. Time passes only in sleeps. File
  operations do not fail, and the other side acts only while the wrapper sleeps.

  The trace records, in order, every file operation and sleep of the wrapper.
\<close>

datatype fs_op = Put string string | Del string

record tick =
  overshoot :: rat
  ops :: "fs_op list"

datatype event =
    EvWrite string string
  | EvExists string
  | EvRead string string
  | EvRemove string
  | EvSleep rat

record world =
  files :: "string \<Rightarrow> string option"
  now :: rat
  script :: "tick list"
  trace :: "event list"

fun apply_op :: "fs_op \<Rightarrow> (string \<Rightarrow> string option) \<Rightarrow> (string \<Rightarrow> string option)" where
  "apply_op (Put p t) fs = fs(p \<mapsto> t)"
| "apply_op (Del p) fs = fs(p := None)"

fun apply_ops :: "fs_op list \<Rightarrow> (string \<Rightarrow> string option) \<Rightarrow> (string \<Rightarrow> string option)" where
  "apply_ops [] fs = fs"
| "apply_ops (x # xs) fs = apply_ops xs (apply_op x fs)"

definition log_event :: "event \<Rightarrow> world \<Rightarrow> world" where
  "log_event e w = w\<lparr>trace := trace w @ [e]\<rparr>"

text \<open>\<^verbatim>\<open>with open(p, 'w') as f: f.write(t)\<close>.\<close>

definition write_file :: "string \<Rightarrow> string \<Rightarrow> world \<Rightarrow> world" where
  "write_file p t w = w\<lparr>files := (files w)(p \<mapsto> t), trace := trace w @ [EvWrite p t]\<rparr>"

text \<open>\<^verbatim>\<open>os.remove(p)\<close>.\<close>

definition remove_file :: "string \<Rightarrow> world \<Rightarrow> world" where
  "remove_file p w = w\<lparr>files := (files w)(p := None), trace := trace w @ [EvRemove p]\<rparr>"

text \<open>
  \<^verbatim>\<open>await asyncio.sleep(d)\<close>: a delay that is not positive returns at once; otherwise the
  clock moves by the delay and by the overshoot of the script's next tick.
\<close>

definition sleep :: "rat \<Rightarrow> world \<Rightarrow> world" where
  "sleep d w =
     (case script w of
        [] \<Rightarrow> w\<lparr>now := now w + max 0 d, trace := trace w @ [EvSleep d]\<rparr>
      | t # ts \<Rightarrow>
          w\<lparr>files := apply_ops (ops t) (files w), now := now w + max 0 d + overshoot t,
            script := ts, trace := trace w @ [EvSleep d]\<rparr>)"

section \<open>Resolving an element index to a coordinate\<close>

text \<open>
  The nested function \<^verbatim>\<open>find_element_by_index\<close>. Its argument is whatever the cache or a
  \<^verbatim>\<open>children\<close> field holds: the \<^verbatim>\<open>for\<close> loop runs over the items of a list, over the
  characters of a string and over the keys of a dictionary, and raises on anything else;
  \<^verbatim>\<open>item.get\<close> raises on an item that is not a dictionary. \<open>Inr None\<close> is the \<^verbatim>\<open>None\<close> the
  function returns when the loop ends.
\<close>

function find_element_by_index :: "json \<Rightarrow> int \<Rightarrow> exn + json option"
  and find_in_items :: "json list \<Rightarrow> int \<Rightarrow> exn + json option" where
  "find_element_by_index elements target_index =
     (case elements of
        JList xs \<Rightarrow> find_in_items xs target_index
      | JStr s \<Rightarrow> (if s = [] then Inr None else Inl (no_attribute (JStr []) ''get''))
      | JObj kvs \<Rightarrow> (if kvs = [] then Inr None else Inl (no_attribute (JStr []) ''get''))
      | _ \<Rightarrow> Inl (not_iterable elements))"
| "find_in_items [] target_index = Inr None"
| "find_in_items (item # rest) target_index =
     (case item of
        JObj kvs \<Rightarrow>
          if py_eq_int (dict_get kvs ''index'' JNull) target_index then Inr (Some item)
          else if truthy (dict_get kvs ''children'' (JList []))
          then (case find_element_by_index (dict_get kvs ''children'' (JList [])) target_index of
                  Inl e \<Rightarrow> Inl e
                | Inr None \<Rightarrow> find_in_items rest target_index
                | Inr (Some r) \<Rightarrow>
                    if truthy r then Inr (Some r) else find_in_items rest target_index)
          else find_in_items rest target_index
      | _ \<Rightarrow> Inl (no_attribute item ''get''))"
  by pat_completeness auto
termination
proof (relation "measure (\<lambda>x. case x of Inl (e, t) \<Rightarrow> 2 * size e + 1 | Inr (xs, t) \<Rightarrow> 2 * size_list size xs)")
  show "wf (measure (\<lambda>x. case x of Inl (e, t) \<Rightarrow> 2 * size e + 1 | Inr (xs, t) \<Rightarrow> 2 * size_list size xs))"
    by simp
next
  fix elements :: json and target_index :: int and xs
  assume "elements = JList xs"
  then show "(Inr (xs, target_index), Inl (elements, target_index))
      \<in> measure (\<lambda>x. case x of Inl (e, t) \<Rightarrow> 2 * size e + 1 | Inr (xs, t) \<Rightarrow> 2 * size_list size xs)"
    by simp
next
  fix item :: json and rest :: "json list" and target_index :: int and kvs
  assume i: "item = JObj kvs" and c: "truthy (dict_get kvs ''children'' (JList []))"
  have "size (dict_get kvs k d) < Suc (size_list (size_prod (\<lambda>_. 0) size) kvs)
      \<or> dict_get kvs k d = d" for k d
    by (induction kvs) auto
  from this [of "''children''" "JList []"] c
  have "size (dict_get kvs ''children'' (JList [])) < Suc (size_list (size_prod (\<lambda>_. 0) size) kvs)"
    by auto
  with i show "(Inl (dict_get kvs ''children'' (JList []), target_index), Inr (item # rest, target_index))
      \<in> measure (\<lambda>x. case x of Inl (e, t) \<Rightarrow> 2 * size e + 1 | Inr (xs, t) \<Rightarrow> 2 * size_list size xs)"
    by simp
qed auto

text \<open>
  \<^verbatim>\<open>_extract_element_coordinates_by_index\<close>. The midpoint uses \<^verbatim>\<open>//\<close>, which rounds towards
  minus infinity as \<open>div\<close> on \<open>int\<close> does.
\<close>

definition extract_element_coordinates_by_index ::
    "pylib \<Rightarrow> wrapper \<Rightarrow> int \<Rightarrow> exn + (int \<times> int)" where
  "extract_element_coordinates_by_index L self index =
     (if \<not> truthy (clickable_elements_cache self)
      then Inl (ValueError ''No UI elements cached. Call get_state first.'')
      else
        (case find_element_by_index (clickable_elements_cache self) index of
           Inl e \<Rightarrow> Inl e
         | Inr None \<Rightarrow> Inl (ValueError (''No element found with index '' @ str_int index))
         | Inr (Some element) \<Rightarrow>
             (case element of
                JObj kvs \<Rightarrow>
                  (if \<not> truthy element
                   then Inl (ValueError (''No element found with index '' @ str_int index))
                   else
                     (let bounds_str = dict_get kvs ''bounds'' JNull in
                      if \<not> truthy bounds_str
                      then Inl (ValueError (''Element with index '' @ str_int index @ '' has no bounds''))
                      else
                        (case bounds_str of
                           JStr s \<Rightarrow>
                             (case ints_of L (split_on CHR '','' s) of
                                Inl e \<Rightarrow> Inl e
                              | Inr bounds \<Rightarrow>
                                  (case bounds of
                                     [left, top', right, bottom] \<Rightarrow>
                                       Inr ((left + right) div 2, (top' + bottom) div 2)
                                   | _ \<Rightarrow> Inl (ValueError (''Invalid bounds format: '' @ s))))
                         | _ \<Rightarrow> Inl (no_attribute bounds_str ''split''))))
              | _ \<Rightarrow>
                  (if \<not> truthy element
                   then Inl (ValueError (''No element found with index '' @ str_int index))
                   else Inl (no_attribute element ''get'')))))"

section \<open>Reading the device state\<close>

definition empty_phone_state :: json where
  "empty_phone_state =
     JObj [(''packageName'', JStr ''Unknown''), (''currentApp'', JStr ''Unknown''),
           (''activityName'', JStr ''Unknown''), (''keyboardVisible'', JBool False),
           (''isEditable'', JBool False), (''focusedElement'', JObj [])]"

type_synonym state_tuple = "json \<times> json \<times> json \<times> json"

text \<open>
  The \<^verbatim>\<open>for attempt in range(max_retries)\<close> loop of \<^verbatim>\<open>get_state\<close>, with the number of
  attempts left. \<open>Inr (Some t)\<close> is the \<^verbatim>\<open>return\<close> inside the loop, \<open>Inr None\<close> the end of the
  loop, \<open>Inl e\<close> an exception that leaves the inner \<^verbatim>\<open>try\<close> (only \<^verbatim>\<open>JSONDecodeError\<close> is
  caught there). The f-string of \<^verbatim>\<open>logger.debug\<close> evaluates \<^verbatim>\<open>len(a11y_tree)\<close> after the cache
  has been assigned.
\<close>

fun get_state_attempts ::
    "pylib \<Rightarrow> nat \<Rightarrow> wrapper \<Rightarrow> world \<Rightarrow> (exn + state_tuple option) \<times> wrapper \<times> world" where
  "get_state_attempts L 0 self w = (Inr None, self, w)"
| "get_state_attempts L (Suc n) self w =
     (let w1 = log_event (EvExists (state_file self)) w in
      case files w (state_file self) of
        None \<Rightarrow> get_state_attempts L n self (sleep (poll_interval self) w1)
      | Some text \<Rightarrow>
          (let w2 = log_event (EvRead (state_file self) text) w1 in
           case loads L text of
             None \<Rightarrow> get_state_attempts L n self (sleep (poll_interval self) w2)
           | Some state_data \<Rightarrow>
               (case state_data of
                  JObj kvs \<Rightarrow>
                    (let formatted_text = dict_get kvs ''formattedText'' (JStr []);
                         focused_text = dict_get kvs ''focusedText'' (JStr []);
                         a11y_tree = dict_get kvs ''a11yTree'' (JList []);
                         phone_state = dict_get kvs ''phoneState'' (JObj []);
                         self' = self\<lparr>clickable_elements_cache := a11y_tree\<rparr>
                     in case py_len a11y_tree of
                          Inl e \<Rightarrow> (Inl e, self', w2)
                        | Inr n \<Rightarrow>
                            (Inr (Some (formatted_text, focused_text, a11y_tree, phone_state)),
                             self', w2))
                | _ \<Rightarrow> (Inl (no_attribute state_data ''get''), self, w2))))"

definition max_retries :: nat where
  "max_retries = 10"

text \<open>\<^verbatim>\<open>get_state\<close>: the outer \<^verbatim>\<open>except Exception\<close> turns every exception into a tuple.\<close>

definition get_state :: "pylib \<Rightarrow> wrapper \<Rightarrow> world \<Rightarrow> state_tuple \<times> wrapper \<times> world" where
  "get_state L self w =
     (case get_state_attempts L max_retries self w of
        (Inr (Some t), self', w') \<Rightarrow> (t, self', w')
      | (Inr None, self', w') \<Rightarrow>
          ((JStr ''State not available'', JStr [], JList [], empty_phone_state), self', w')
      | (Inl e, self', w') \<Rightarrow>
          ((JStr (''Error: '' @ exn_str e), JStr [], JList [], empty_phone_state), self', w'))"

section \<open>The action channel\<close>

text \<open>\<^verbatim>\<open>int(x)\<close> of a float truncates towards zero.\<close>

definition py_trunc :: "rat \<Rightarrow> int" where
  "py_trunc q = (if 0 \<le> q then \<lfloor>q\<rfloor> else \<lceil>q\<rceil>)"

definition action_data :: "string \<Rightarrow> (string \<times> string) list \<Rightarrow> rat \<Rightarrow> string \<Rightarrow> json" where
  "action_data action_type parameters t action_id =
     JObj [(''actionType'', JStr action_type),
           (''parameters'', JObj (map (\<lambda>(k, v). (k, JStr v)) parameters)),
           (''timestamp'', JInt (py_trunc (t * 1000))),
           (''actionId'', JStr action_id)]"

text \<open>
  \<^verbatim>\<open>json.loads(result_str)\<close> inside \<^verbatim>\<open>try\<close>: a value that is not a string raises
  \<^verbatim>\<open>TypeError\<close>, a string that does not parse raises \<^verbatim>\<open>JSONDecodeError\<close>, and both return
  \<^verbatim>\<open>result_str\<close> itself.
\<close>

definition decode_result :: "pylib \<Rightarrow> json \<Rightarrow> json" where
  "decode_result L result_str =
     (case result_str of
        JStr s \<Rightarrow> (case loads L s of Some v \<Rightarrow> v | None \<Rightarrow> result_str)
      | _ \<Rightarrow> result_str)"

text \<open>
  The body of the \<^verbatim>\<open>while\<close> loop of \<^verbatim>\<open>_execute_action\<close> up to the sleep. \<open>Some (Inr v)\<close> is
  \<^verbatim>\<open>return v\<close>, \<open>Some (Inl e)\<close> an exception that leaves the function (the handler catches
  \<^verbatim>\<open>JSONDecodeError\<close> and \<^verbatim>\<open>KeyError\<close> only), \<open>None\<close> goes on to the sleep.
\<close>

definition poll_once :: "pylib \<Rightarrow> wrapper \<Rightarrow> string \<Rightarrow> world \<Rightarrow> (exn + json) option \<times> world" where
  "poll_once L self action_id w =
     (let w1 = log_event (EvExists (result_file self)) w in
      case files w (result_file self) of
        None \<Rightarrow> (None, w1)
      | Some text \<Rightarrow>
          (let w2 = log_event (EvRead (result_file self) text) w1 in
           case loads L text of
             None \<Rightarrow> (None, w2)
           | Some result_data \<Rightarrow>
               (case result_data of
                  JObj kvs \<Rightarrow>
                    if dict_get kvs ''actionId'' JNull = JStr action_id
                    then
                      (let w3 = remove_file (result_file self) w2 in
                       if truthy (dict_get kvs ''success'' JNull)
                       then (Some (Inr (decode_result L (dict_get kvs ''result'' (JStr [])))), w3)
                       else
                         (Some (Inl (Exception (''Action failed: ''
                            @ py_str L (dict_get kvs ''error'' (JStr ''Unknown error''))))), w3))
                    else (None, w2)
                | _ \<Rightarrow> (Some (Inl (no_attribute result_data ''get'')), w2))))"

definition max_wait_time :: rat where
  "max_wait_time = 30"

text \<open>
  The \<^verbatim>\<open>while time.time() - start_time < max_wait_time\<close> loop. The result is \<open>None\<close> when the
  loop never ends: the script is used up, so that nothing changes any more, and the delay is
  not positive, so that the clock stands still.
\<close>

function poll_loop ::
    "pylib \<Rightarrow> wrapper \<Rightarrow> string \<Rightarrow> string \<Rightarrow> rat \<Rightarrow> world \<Rightarrow> (exn + json) option \<times> world" where
  "poll_loop L self action_type action_id start_time w =
     (if now w - start_time < max_wait_time
      then
        (case poll_once L self action_id w of
           (Some r, w') \<Rightarrow> (Some r, w')
         | (None, w') \<Rightarrow>
             if script w' = [] \<and> poll_interval self \<le> 0 then (None, w')
             else poll_loop L self action_type action_id start_time (sleep (poll_interval self) w'))
      else (Some (Inl (TimeoutError (''Action '' @ action_type @ '' timed out after 30.0s''))), w))"
  by pat_completeness auto
termination
proof (relation "measures [\<lambda>(L, self, action_type, action_id, start_time, w). length (script w),
    \<lambda>(L, self, action_type, action_id, start_time, w).
      nat \<lceil>(start_time + max_wait_time - now w) / poll_interval self\<rceil>]")
  show "wf (measures [\<lambda>(L, self, action_type, action_id, start_time, w). length (script w),
    \<lambda>(L, self, action_type, action_id, start_time, w).
      nat \<lceil>(start_time + max_wait_time - now w) / poll_interval self\<rceil>])"
    by simp
next
  fix L :: pylib and self :: wrapper and action_type action_id :: string
    and start_time :: rat and w :: world
    and x1 :: "(exn + json) option" and w' :: world
  assume running: "now w - start_time < max_wait_time"
    and x: "(x1, w') = poll_once L self action_id w" "x1 = None"
    and go: "\<not> (script w' = [] \<and> poll_interval self \<le> 0)"
  have same: "script w' = script w \<and> now w' = now w"
    using x(1) [symmetric] x(2)
    by (auto simp: poll_once_def log_event_def remove_file_def Let_def
             split: option.splits json.splits if_splits)
  show "((L, self, action_type, action_id, start_time, sleep (poll_interval self) w'),
         (L, self, action_type, action_id, start_time, w))
      \<in> measures [\<lambda>(L, self, action_type, action_id, start_time, w). length (script w),
          \<lambda>(L, self, action_type, action_id, start_time, w).
            nat \<lceil>(start_time + max_wait_time - now w) / poll_interval self\<rceil>]"
  proof (cases "script w'")
    case (Cons t ts)
    then have "script (sleep (poll_interval self) w') = ts"
      by (simp add: sleep_def)
    moreover from Cons same have "script w = t # ts"
      by simp
    ultimately show ?thesis
      by simp
  next
    case Nil
    with go have pos: "0 < poll_interval self" by simp
    let ?p = "poll_interval self"
    define D where "D = start_time + max_wait_time - now w"
    have D: "0 < D" using running by (simp add: D_def)
    have "(D - poll_interval self) / poll_interval self = D / poll_interval self - 1"
      using pos by (simp add: diff_divide_distrib)
    then have "\<lceil>(D - poll_interval self) / poll_interval self\<rceil> = \<lceil>D / poll_interval self\<rceil> - 1"
      by simp
    moreover have "0 < \<lceil>D / poll_interval self\<rceil>"
      using D pos by (simp add: ceiling_less_iff)
    ultimately have lt: "nat \<lceil>(D - poll_interval self) / poll_interval self\<rceil> < nat \<lceil>D / poll_interval self\<rceil>"
      by simp
    have sl: "script (sleep ?p w') = []" "now (sleep ?p w') = now w + ?p" "script w = []"
      using Nil same pos by (simp_all add: sleep_def max_def)
    have e1: "start_time + max_wait_time - now (sleep ?p w') = D - ?p"
      using sl by (simp add: D_def)
    have m2: "nat \<lceil>(start_time + max_wait_time - now (sleep ?p w')) / ?p\<rceil>
        < nat \<lceil>(start_time + max_wait_time - now w) / ?p\<rceil>"
      unfolding e1 D_def [symmetric] by (rule lt)
    show ?thesis
      using m2 by (simp only: in_measures prod.case sl simp_thms)
  qed
qed

declare poll_loop.simps [simp del]

text \<open>
  \<^verbatim>\<open>_execute_action\<close>. The fresh \<^verbatim>\<open>str(uuid.uuid4())\<close> is the argument \<open>action_id\<close>. The outer
  handler logs the exception and raises it again.
\<close>

definition execute_action ::
    "pylib \<Rightarrow> wrapper \<Rightarrow> string \<Rightarrow> (string \<times> string) list \<Rightarrow> string \<Rightarrow> world
       \<Rightarrow> (exn + json) option \<times> world" where
  "execute_action L self action_type parameters action_id w =
     (let w1 = write_file (actions_file self)
                 (dumps L (action_data action_type parameters (now w) action_id)) w
      in poll_loop L self action_type action_id (now w1) w1)"

section \<open>The operations offered to the agent\<close>

text \<open>
  Each operation below is the body of the method of the same name. The decorator
  \<^verbatim>\<open>Tools.ui_action\<close> comes from the droidrun package and is not part of this file.
  An operation that ends in \<^verbatim>\<open>_execute_action\<close> returns what that call returns, raises what
  it raises, and does not return when it does not.
\<close>

type_synonym 'a run = "(exn + 'a) option \<times> world"

definition and_then :: "json run \<Rightarrow> (json \<Rightarrow> exn + 'a) \<Rightarrow> 'a run" where
  "and_then r f =
     (case r of
        (None, w) \<Rightarrow> (None, w)
      | (Some (Inl e), w) \<Rightarrow> (Some (Inl e), w)
      | (Some (Inr v), w) \<Rightarrow> (Some (f v), w))"

definition tap_by_index :: "pylib \<Rightarrow> wrapper \<Rightarrow> int \<Rightarrow> string \<Rightarrow> world \<Rightarrow> json run" where
  "tap_by_index L self index action_id w =
     execute_action L self ''tap_by_index'' [(''index'', str_int index)] action_id w"

text \<open>\<^verbatim>\<open>result.get("success", False) if isinstance(result, dict) else False\<close>.\<close>

definition success_flag :: "json \<Rightarrow> json" where
  "success_flag result =
     (case result of JObj kvs \<Rightarrow> dict_get kvs ''success'' (JBool False) | _ \<Rightarrow> JBool False)"

definition swipe ::
    "pylib \<Rightarrow> wrapper \<Rightarrow> int \<Rightarrow> int \<Rightarrow> int \<Rightarrow> int \<Rightarrow> int \<Rightarrow> string \<Rightarrow> world \<Rightarrow> json run" where
  "swipe L self start_x start_y end_x end_y duration_ms action_id w =
     and_then
       (execute_action L self ''swipe''
          [(''start_x'', str_int start_x), (''start_y'', str_int start_y),
           (''end_x'', str_int end_x), (''end_y'', str_int end_y),
           (''duration_ms'', str_int duration_ms)] action_id w)
       (\<lambda>result. Inr (success_flag result))"

definition drag ::
    "pylib \<Rightarrow> wrapper \<Rightarrow> int \<Rightarrow> int \<Rightarrow> int \<Rightarrow> int \<Rightarrow> int \<Rightarrow> string \<Rightarrow> world \<Rightarrow> json run" where
  "drag L self start_x start_y end_x end_y duration_ms action_id w =
     and_then
       (execute_action L self ''drag''
          [(''start_x'', str_int start_x), (''start_y'', str_int start_y),
           (''end_x'', str_int end_x), (''end_y'', str_int end_y),
           (''duration_ms'', str_int duration_ms)] action_id w)
       (\<lambda>result. Inr (success_flag result))"

definition input_text ::
    "pylib \<Rightarrow> wrapper \<Rightarrow> string \<Rightarrow> int \<Rightarrow> bool \<Rightarrow> string \<Rightarrow> world \<Rightarrow> json run" where
  "input_text L self text index clear action_id w =
     execute_action L self ''input_text''
       [(''text'', text), (''index'', str_int index), (''clear'', str_bool clear)] action_id w"

text \<open>The method \<^verbatim>\<open>back\<close>.\<close>

definition back_op :: "pylib \<Rightarrow> wrapper \<Rightarrow> string \<Rightarrow> world \<Rightarrow> json run" where
  "back_op L self action_id w = execute_action L self ''back'' [] action_id w"

definition press_key :: "pylib \<Rightarrow> wrapper \<Rightarrow> int \<Rightarrow> string \<Rightarrow> world \<Rightarrow> json run" where
  "press_key L self keycode action_id w =
     execute_action L self ''press_key'' [(''keycode'', str_int keycode)] action_id w"

definition start_app ::
    "pylib \<Rightarrow> wrapper \<Rightarrow> string \<Rightarrow> string \<Rightarrow> string \<Rightarrow> world \<Rightarrow> json run" where
  "start_app L self package activity action_id w =
     execute_action L self ''start_app''
       [(''package'', package), (''activity'', activity)] action_id w"

text \<open>\<^verbatim>\<open>isinstance(result, dict) and key in result\<close>, then \<^verbatim>\<open>result[key]\<close>.\<close>

definition dict_field :: "json \<Rightarrow> string \<Rightarrow> json option" where
  "dict_field result k =
     (case result of JObj kvs \<Rightarrow> map_of kvs k | _ \<Rightarrow> None)"

definition take_screenshot ::
    "pylib \<Rightarrow> wrapper \<Rightarrow> string \<Rightarrow> world \<Rightarrow> (string \<times> string) run" where
  "take_screenshot L self action_id w =
     and_then (execute_action L self ''take_screenshot'' [] action_id w)
       (\<lambda>result.
          case dict_field result ''image_base64'' of
            Some image_base64 \<Rightarrow>
              (case b64decode L image_base64 of
                 Inl e \<Rightarrow> Inl e
               | Inr image_bytes \<Rightarrow> Inr (''PNG'', image_bytes))
          | None \<Rightarrow> Inl (ValueError ''Screenshot failed''))"

definition list_packages :: "pylib \<Rightarrow> wrapper \<Rightarrow> bool \<Rightarrow> string \<Rightarrow> world \<Rightarrow> json run" where
  "list_packages L self include_system_apps action_id w =
     and_then
       (execute_action L self ''list_packages''
          [(''include_system_apps'', str_bool include_system_apps)] action_id w)
       (\<lambda>result.
          case dict_field result ''packages'' of Some v \<Rightarrow> Inr v | None \<Rightarrow> Inr (JList []))"

definition get_apps :: "pylib \<Rightarrow> wrapper \<Rightarrow> bool \<Rightarrow> string \<Rightarrow> world \<Rightarrow> json run" where
  "get_apps L self include_system action_id w =
     and_then
       (execute_action L self ''get_apps''
          [(''include_system'', str_bool include_system)] action_id w)
       (\<lambda>result.
          case dict_field result ''apps'' of Some v \<Rightarrow> Inr v | None \<Rightarrow> Inr (JList []))"

text \<open>
  \<^verbatim>\<open>remember\<close>: the argument is a string, so \<^verbatim>\<open>isinstance(information, str)\<close> holds;
  \<^verbatim>\<open>self.memory[-max_memory_items:]\<close> keeps the last ten entries.
\<close>

definition max_memory_items :: nat where
  "max_memory_items = 10"

definition remember :: "wrapper \<Rightarrow> string \<Rightarrow> string \<times> wrapper" where
  "remember self information =
     (if information = []
      then (''Error: Please provide valid information to remember.'', self)
      else
        (let m = memory self @ [strip information];
             m' = (if length m > max_memory_items then drop (length m - max_memory_items) m
                   else m)
         in (''Remembered: '' @ information, self\<lparr>memory := m'\<rparr>)))"

definition get_memory :: "wrapper \<Rightarrow> string list" where
  "get_memory self = memory self"

text \<open>
  \<^verbatim>\<open>complete\<close>: the three fields are assigned before the executor is notified; the method
  returns \<^verbatim>\<open>None\<close>.
\<close>

definition complete ::
    "pylib \<Rightarrow> wrapper \<Rightarrow> bool \<Rightarrow> string \<Rightarrow> string \<Rightarrow> world \<Rightarrow> unit run \<times> wrapper" where
  "complete L self succ rsn action_id w =
     (let self' = self\<lparr>success := Some succ,
                       reason := Some (if rsn \<noteq> [] then rsn
                                       else if succ then ''Task completed successfully.''
                                       else ''Task failed.''),
                       finished := True\<rparr>
      in (and_then
            (execute_action L self' ''complete''
               [(''success'', str_bool succ), (''reason'', rsn)] action_id w)
            (\<lambda>result. Inr ()),
          self'))"

section \<open>The resolver as the specification words it\<close>


declare find_element_by_index.simps [simp del]





text \<open>The tree of the specification's example.\<close>

definition example_tree :: json where
  "example_tree = JList
     [JObj [(''index'', JInt 1), (''bounds'', JStr ''0,0,10,10'')],
      JObj [(''index'', JInt 2), (''bounds'', JStr ''0,0,20,20''),
            (''children'', JList [JObj [(''index'', JInt 3), (''bounds'', JStr ''4,4,6,6'')]])]]"

section \<open>Sequences of calls\<close>

text \<open>A sequence of \<^verbatim>\<open>remember\<close> calls on the same object, and the last \<open>k\<close> items of a list.\<close>

definition remember_all :: "wrapper \<Rightarrow> string list \<Rightarrow> wrapper" where
  "remember_all self infos = foldl (\<lambda>s information. snd (remember s information)) self infos"

definition most_recent :: "nat \<Rightarrow> 'a list \<Rightarrow> 'a list" where
  "most_recent k xs = drop (length xs - k) xs"

definition eleven_notes :: "string list" where
  "eleven_notes = [''n1'', ''n2'', ''n3'', ''n4'', ''n5'', ''n6'', ''n7'', ''n8'', ''n9'',
     ''n10'', ''n11'']"

section \<open>What a poll of the result file can find\<close>

text \<open>
  The text of the result file is foreign to a call when it does not decode (a partial write)
  or decodes to a dictionary whose \<^verbatim>\<open>actionId\<close> is not the identifier of the call. It
  matches when it decodes to a dictionary with that identifier. A document that decodes to
  something other than a dictionary is neither.
\<close>

definition foreign :: "pylib \<Rightarrow> string \<Rightarrow> string \<Rightarrow> bool" where
  "foreign L action_id text =
     (case loads L text of
        None \<Rightarrow> True
      | Some (JObj kvs) \<Rightarrow> dict_get kvs ''actionId'' JNull \<noteq> JStr action_id
      | Some _ \<Rightarrow> False)"

definition matches :: "pylib \<Rightarrow> string \<Rightarrow> string \<Rightarrow> bool" where
  "matches L action_id text =
     (case loads L text of
        Some (JObj kvs) \<Rightarrow> dict_get kvs ''actionId'' JNull = JStr action_id
      | _ \<Rightarrow> False)"

text \<open>A poll is idle when the result file does not exist or its text is foreign.\<close>

definition idle :: "pylib \<Rightarrow> string \<Rightarrow> string option \<Rightarrow> bool" where
  "idle L action_id content = (case content of None \<Rightarrow> True | Some text \<Rightarrow> foreign L action_id text)"


text \<open>The events of an idle poll, and the world after it.\<close>

definition poll_events :: "string \<Rightarrow> string option \<Rightarrow> event list" where
  "poll_events p content =
     EvExists p # (case content of None \<Rightarrow> [] | Some text \<Rightarrow> [EvRead p text])"

definition after_poll :: "wrapper \<Rightarrow> world \<Rightarrow> world" where
  "after_poll self w =
     w\<lparr>trace := trace w @ poll_events (result_file self) (files w (result_file self))\<rparr>"

text \<open>The world after a poll that found a matching result and removed the file.\<close>

definition consumed :: "wrapper \<Rightarrow> string \<Rightarrow> world \<Rightarrow> world" where
  "consumed self body w =
     w\<lparr>files := (files w)(result_file self := None),
       trace := trace w @ [EvExists (result_file self), EvRead (result_file self) body,
                           EvRemove (result_file self)]\<rparr>"

definition result_ready ::
    "pylib \<Rightarrow> wrapper \<Rightarrow> string \<Rightarrow> world \<Rightarrow> string \<Rightarrow> (string \<times> json) list \<Rightarrow> bool" where
  "result_ready L self action_id w body kvs =
     (files w (result_file self) = Some body \<and> loads L body = Some (JObj kvs)
      \<and> dict_get kvs ''actionId'' JNull = JStr action_id)"

definition timeout_error :: "string \<Rightarrow> exn" where
  "timeout_error action_type = TimeoutError (''Action '' @ action_type @ '' timed out after 30.0s'')"

text \<open>
  Every removal in a list of events is of the path \<open>p\<close> and comes directly after a read of
  \<open>p\<close> that returned a matching text.
\<close>

fun justified :: "pylib \<Rightarrow> string \<Rightarrow> string \<Rightarrow> event list \<Rightarrow> bool" where
  "justified L action_id p [] = True"
| "justified L action_id p (EvRemove q # es) = False"
| "justified L action_id p (EvRead q text # EvRemove q' # es) =
     (q = p \<and> q' = p \<and> matches L action_id text \<and> justified L action_id p es)"
| "justified L action_id p (e # es) = justified L action_id p es"

fun is_write :: "event \<Rightarrow> bool" where
  "is_write (EvWrite p t) = True"
| "is_write e = False"



section \<open>What the state reader can find\<close>

text \<open>
  The state file is unreadable at an attempt when it does not exist or its text does not
  decode. It is unavailable for \<open>n\<close> attempts when it is unreadable at each of them,
  whatever the file system holds now and after each tick of the script. The sentinel is the
  tuple the reader returns in place of a snapshot, with a message as its formatted text.
\<close>

definition unreadable :: "pylib \<Rightarrow> string option \<Rightarrow> bool" where
  "unreadable L content = (case content of None \<Rightarrow> True | Some body \<Rightarrow> loads L body = None)"

fun unavailable :: "pylib \<Rightarrow> string \<Rightarrow> nat \<Rightarrow> (string \<Rightarrow> string option) \<Rightarrow> tick list \<Rightarrow> bool" where
  "unavailable L p 0 fs ts = True"
| "unavailable L p (Suc n) fs ts =
     (unreadable L (fs p)
      \<and> (case ts of
           [] \<Rightarrow> unavailable L p n fs []
         | t # ts' \<Rightarrow> unavailable L p n (apply_ops (ops t) fs) ts'))"

fun is_exists :: "event \<Rightarrow> bool" where
  "is_exists (EvExists p) = True"
| "is_exists e = False"

fun is_sleep :: "event \<Rightarrow> bool" where
  "is_sleep (EvSleep d) = True"
| "is_sleep e = False"

definition sentinel :: "string \<Rightarrow> state_tuple" where
  "sentinel message = (JStr message, JStr [], JList [], empty_phone_state)"

section \<open>Sample inputs\<close>

text \<open>
  Result documents as the Android side writes them, a library instance whose decoder knows
  them by heart, a wrapper on three paths with the default poll interval, and worlds with
  given files and script.
\<close>

definition ok_doc :: string where
  \<open>ok_doc = ''{"actionId": "a1", "success": true, "result": "7"}''\<close>

definition raw_doc :: string where
  \<open>raw_doc = ''{"actionId": "a1", "success": true, "result": "done"}''\<close>

definition failed_doc :: string where
  \<open>failed_doc = ''{"actionId": "a1", "success": false, "error": "no such element"}''\<close>

definition bare_failed_doc :: string where
  \<open>bare_failed_doc = ''{"actionId": "a1", "success": false}''\<close>

definition foreign_doc :: string where
  \<open>foreign_doc = ''{"actionId": "zz", "success": true, "result": "7"}''\<close>


definition sample_documents :: "(string \<times> json) list" where
  "sample_documents =
     [(ok_doc, JObj [(''actionId'', JStr ''a1''), (''success'', JBool True), (''result'', JStr ''7'')]),
      (raw_doc, JObj [(''actionId'', JStr ''a1''), (''success'', JBool True), (''result'', JStr ''done'')]),
      (failed_doc, JObj [(''actionId'', JStr ''a1''), (''success'', JBool False),
                         (''error'', JStr ''no such element'')]),
      (bare_failed_doc, JObj [(''actionId'', JStr ''a1''), (''success'', JBool False)]),
      (foreign_doc, JObj [(''actionId'', JStr ''zz''), (''success'', JBool True), (''result'', JStr ''7'')]),
      (''7'', JInt 7)]"

definition sample_lib :: pylib where
  "sample_lib =
     \<lparr>loads = map_of sample_documents, dumps = (\<lambda>v. ''<request>''),
      str_other = (\<lambda>v. ''<value>''), repr_str = sq, b64decode = (\<lambda>v. Inr [])\<rparr>"

definition sample_self :: wrapper where
  "sample_self = init ''state.json'' ''actions.json'' ''result.json'' (1 / 10)"

definition world_with :: "(string \<times> string) list \<Rightarrow> tick list \<Rightarrow> world" where
  "world_with fs ts = \<lparr>files = map_of fs, now = 1000, script = ts, trace = []\<rparr>"


definition late_script :: "string \<Rightarrow> tick list" where
  "late_script body =
     [\<lparr>overshoot = 0, ops = []\<rparr>, \<lparr>overshoot = 1 / 100, ops = [Put ''result.json'' body]\<rparr>]"


definition failed_fields :: "(string \<times> json) list" where
  "failed_fields = [(''actionId'', JStr ''a1''), (''success'', JBool False),
                    (''error'', JStr ''no such element'')]"




definition slow_self :: wrapper where
  "slow_self = sample_self\<lparr>poll_interval := 10\<rparr>"


text \<open>A state document, a document that is a list, and a wrapper that has cached a tree.\<close>

definition state_doc :: string where
  \<open>state_doc = ''{"formattedText": "Home", "focusedText": "", "a11yTree": [{"index": 1, "bounds": "0,0,10,10"}], "phoneState": {"packageName": "com.example"}}''\<close>

definition state_fields :: "(string \<times> json) list" where
  "state_fields =
     [(''formattedText'', JStr ''Home''), (''focusedText'', JStr []),
      (''a11yTree'', JList [JObj [(''index'', JInt 1), (''bounds'', JStr ''0,0,10,10'')]]),
      (''phoneState'', JObj [(''packageName'', JStr ''com.example'')])]"

definition list_doc :: string where
  "list_doc = ''[]''"

definition state_lib :: pylib where
  "state_lib = sample_lib\<lparr>loads := map_of [(state_doc, JObj state_fields), (list_doc, JList [])]\<rparr>"

definition seen_self :: wrapper where
  "seen_self = sample_self\<lparr>clickable_elements_cache := example_tree\<rparr>"

section \<open>Properties of the resolver\<close>
















section \<open>Properties of the memory log\<close>

lemma most_recent_append:
  "most_recent k (most_recent k xs @ ys) = most_recent k (xs @ ys)"
proof (cases "length xs \<le> k")
  case True
  then show ?thesis by (simp add: most_recent_def)
next
  case False
  then have "length xs + length ys - (length xs - k + k) + (length xs - k) = length xs + length ys - k"
    by simp
  with False show ?thesis by (simp add: most_recent_def)
qed

lemma most_recent_short: "length xs \<le> k \<Longrightarrow> most_recent k xs = xs"
  by (simp add: most_recent_def)

lemma length_most_recent: "length (most_recent k xs) \<le> k"
  by (simp add: most_recent_def)

lemma remember_memory:
  "memory (snd (remember self information))
     = (if information = [] then memory self else most_recent 10 (memory self @ [strip information]))"
  by (simp add: remember_def most_recent_def max_memory_items_def Let_def)

lemma remember_all_memory:
  "length (memory self) \<le> 10 \<Longrightarrow>
   memory (remember_all self infos)
     = most_recent 10 (memory self @ map strip (filter (\<lambda>information. information \<noteq> []) infos))"
proof (induction infos arbitrary: self)
  case Nil
  then show ?case by (simp add: remember_all_def most_recent_short)
next
  case (Cons information infos)
  have "length (memory (snd (remember self information))) \<le> 10"
    using Cons.prems by (simp add: remember_memory length_most_recent)
  from Cons.IH [OF this] show ?case
    by (simp add: remember_all_def remember_memory most_recent_append)
qed


lemma most_recent_tl: "length xs = Suc k \<Longrightarrow> most_recent k xs = tl xs"
  by (cases xs) (simp_all add: most_recent_def)

text \<open>
  C7. A call of \<^verbatim>\<open>remember\<close> keeps the log at ten entries or fewer. After any sequence of
  calls on a fresh object the log is the last ten, in order, of the notes that were not empty,
  each stored as \<^verbatim>\<open>strip()\<close> leaves it; when the notes carry no surrounding white space the
  log is the last ten notes themselves. After eleven calls with notes that are not empty,
  the log holds the last ten and the first is gone.
\<close>

theorem memory_fifo:
  "(length (memory self) \<le> 10 \<longrightarrow> length (memory (snd (remember self information))) \<le> 10)
   \<and> length (memory (remember_all (init sf af rf d) infos)) \<le> 10
   \<and> memory (remember_all (init sf af rf d) infos)
       = most_recent 10 (map strip (filter (\<lambda>i. i \<noteq> []) infos))
   \<and> ((\<forall>i \<in> set infos. i \<noteq> [] \<and> strip i = i)
      \<longrightarrow> memory (remember_all (init sf af rf d) infos) = most_recent 10 infos)
   \<and> (length infos = 11 \<and> (\<forall>i \<in> set infos. i \<noteq> [])
      \<longrightarrow> memory (remember_all (init sf af rf d) infos) = map strip (tl infos))"
proof -
  have start: "length (memory (init sf af rf d)) \<le> 10" "memory (init sf af rf d) = []"
    by (simp_all add: init_def)
  have all: "memory (remember_all (init sf af rf d) infos)
      = most_recent 10 (map strip (filter (\<lambda>i. i \<noteq> []) infos))"
    using remember_all_memory [OF start(1), of infos] start(2) by simp
  have step: "length (memory self) \<le> 10 \<longrightarrow> length (memory (snd (remember self information))) \<le> 10"
    by (simp add: remember_memory length_most_recent)
  have len: "length (memory (remember_all (init sf af rf d) infos)) \<le> 10"
    unfolding all by (rule length_most_recent)
  have clean: "(\<forall>i \<in> set infos. i \<noteq> [] \<and> strip i = i)
      \<longrightarrow> memory (remember_all (init sf af rf d) infos) = most_recent 10 infos"
  proof
    assume a: "\<forall>i \<in> set infos. i \<noteq> [] \<and> strip i = i"
    then have "filter (\<lambda>i. i \<noteq> []) infos = infos"
      by (simp add: filter_id_conv)
    moreover from a have "map strip infos = infos"
      by (simp add: map_idI)
    ultimately show "memory (remember_all (init sf af rf d) infos) = most_recent 10 infos"
      unfolding all by simp
  qed
  have eleven: "length infos = 11 \<and> (\<forall>i \<in> set infos. i \<noteq> [])
      \<longrightarrow> memory (remember_all (init sf af rf d) infos) = map strip (tl infos)"
  proof
    assume a: "length infos = 11 \<and> (\<forall>i \<in> set infos. i \<noteq> [])"
    then have "filter (\<lambda>i. i \<noteq> []) infos = infos"
      by (simp add: filter_id_conv)
    moreover from a have "most_recent 10 (map strip infos) = tl (map strip infos)"
      by (intro most_recent_tl) simp
    ultimately show "memory (remember_all (init sf af rf d) infos) = map strip (tl infos)"
      unfolding all by (simp add: map_tl)
  qed
  from step len all clean eleven show ?thesis
    by blast
qed

theorem memory_fifo_witness:
  "length eleven_notes = 11 \<and> list_all (\<lambda>i. i \<noteq> [] \<and> strip i = i) eleven_notes
   \<and> length (memory (init ''s'' ''a'' ''r'' (1 / 10))) \<le> 10
   \<and> memory (remember_all (init ''s'' ''a'' ''r'' (1 / 10)) eleven_notes)
       = [''n2'', ''n3'', ''n4'', ''n5'', ''n6'', ''n7'', ''n8'', ''n9'', ''n10'', ''n11'']
   \<and> length (memory (snd (remember (init ''s'' ''a'' ''r'' (1 / 10)) ''n1''))) \<le> 10"
proof -
  have h: "length eleven_notes = 11 \<and> list_all (\<lambda>i. i \<noteq> [] \<and> strip i = i) eleven_notes
      \<and> length (memory (init ''s'' ''a'' ''r'' (1 / 10))) \<le> 10"
    by code_simp
  then have b: "\<forall>i \<in> set eleven_notes. i \<noteq> [] \<and> strip i = i"
    by (simp add: list_all_iff)
  have t: "map strip (tl eleven_notes)
      = [''n2'', ''n3'', ''n4'', ''n5'', ''n6'', ''n7'', ''n8'', ''n9'', ''n10'', ''n11'']"
    by code_simp
  note m = memory_fifo [of "init ''s'' ''a'' ''r'' (1 / 10)" "''n1''" "''s''" "''a''" "''r''" "1 / 10" eleven_notes]
  from m h b have r: "memory (remember_all (init ''s'' ''a'' ''r'' (1 / 10)) eleven_notes)
      = map strip (tl eleven_notes)"
    by blast
  from m h have s: "length (memory (snd (remember (init ''s'' ''a'' ''r'' (1 / 10)) ''n1''))) \<le> 10"
    by blast
  from h r [unfolded t] s show ?thesis
    by blast
qed

section \<open>Properties of the action channel\<close>

lemma poll_once_idle:
  assumes "idle L action_id (files w (result_file self))"
  shows "poll_once L self action_id w = (None, after_poll self w)"
  using assms
  by (auto simp: poll_once_def idle_def foreign_def poll_events_def log_event_def Let_def
           after_poll_def split: option.splits json.splits)

lemma poll_once_match:
  assumes "files w (result_file self) = Some text" "loads L text = Some (JObj kvs)"
    "dict_get kvs ''actionId'' JNull = JStr action_id"
  shows "poll_once L self action_id w
    = (Some (if truthy (dict_get kvs ''success'' JNull)
             then Inr (decode_result L (dict_get kvs ''result'' (JStr [])))
             else Inl (Exception (''Action failed: ''
                    @ py_str L (dict_get kvs ''error'' (JStr ''Unknown error''))))),
       w\<lparr>files := (files w)(result_file self := None),
         trace := trace w @ [EvExists (result_file self), EvRead (result_file self) text,
                             EvRemove (result_file self)]\<rparr>)"
  using assms
  by (simp add: poll_once_def log_event_def remove_file_def Let_def)

lemma poll_once_None:
  assumes "poll_once L self action_id w = (None, w')"
  shows "idle L action_id (files w (result_file self)) \<and> w' = after_poll self w"
  using assms
  by (auto simp: poll_once_def idle_def foreign_def poll_events_def log_event_def Let_def
           after_poll_def split: option.splits json.splits if_splits)

lemma poll_loop_timeout:
  "\<not> now w - start_time < max_wait_time \<Longrightarrow>
   poll_loop L self action_type action_id start_time w
     = (Some (Inl (TimeoutError (''Action '' @ action_type @ '' timed out after 30.0s''))), w)"
  by (simp add: poll_loop.simps)

lemma poll_loop_done:
  "now w - start_time < max_wait_time \<Longrightarrow> poll_once L self action_id w = (Some r, w') \<Longrightarrow>
   poll_loop L self action_type action_id start_time w = (Some r, w')"
  by (simp add: poll_loop.simps)

lemma poll_loop_idle:
  assumes "now w - start_time < max_wait_time" "idle L action_id (files w (result_file self))"
  shows "poll_loop L self action_type action_id start_time w
    = (if script w = [] \<and> poll_interval self \<le> 0 then (None, after_poll self w)
       else poll_loop L self action_type action_id start_time
              (sleep (poll_interval self) (after_poll self w)))"
proof -
  have "script (after_poll self w) = script w"
    by (simp add: after_poll_def)
  with assms poll_once_idle [OF assms(2)] show ?thesis
    by (subst poll_loop.simps) simp
qed


lemma poll_induct [case_names poll]:
  assumes step: "\<And>w. (now w - start_time < max_wait_time \<Longrightarrow>
      idle L action_id (files w (result_file (self :: wrapper))) \<Longrightarrow>
      \<not> (script w = [] \<and> poll_interval self \<le> 0) \<Longrightarrow>
      P (sleep (poll_interval self) (after_poll self w)))
      \<Longrightarrow> P w"
  shows "P (w :: world)"
proof -
  have "L' = L \<and> s' = self \<and> aid' = action_id \<and> st' = start_time \<longrightarrow> P w"
    for L' and s' :: wrapper and at' :: string and aid' st'
  proof (induction L' s' at' aid' st' w rule: poll_loop.induct)
    case (1 L' s' at' aid' st' w)
    show ?case
    proof
      assume eq: "L' = L \<and> s' = self \<and> aid' = action_id \<and> st' = start_time"
      show "P w"
      proof (rule step)
        assume guard: "now w - start_time < max_wait_time"
          and idle: "idle L action_id (files w (result_file self))"
          and go: "\<not> (script w = [] \<and> poll_interval self \<le> 0)"
        have "(None, after_poll self w) = poll_once L' s' aid' w"
          using poll_once_idle [OF idle] eq by simp
        moreover have "script (after_poll self w) = script w"
          by (simp add: after_poll_def)
        ultimately show "P (sleep (poll_interval self) (after_poll self w))"
          using 1 [of None "after_poll self w"] guard go eq by simp
      qed
    qed
  qed
  then show ?thesis by simp
qed


lemma poll_once_other:
  assumes "files w (result_file self) = Some body" "loads L body = Some v" "\<forall>kvs. v \<noteq> JObj kvs"
  shows "poll_once L self action_id w
    = (Some (Inl (no_attribute v ''get'')),
       w\<lparr>trace := trace w @ [EvExists (result_file self), EvRead (result_file self) body]\<rparr>)"
  using assms
  by (cases v) (simp_all add: poll_once_def log_event_def Let_def)

lemma content_cases:
  obtains (idle) "idle L action_id c"
  | (matched) body kvs where "c = Some body" "loads L body = Some (JObj kvs)"
      "dict_get kvs ''actionId'' JNull = JStr action_id"
  | (other) body v where "c = Some body" "loads L body = Some v" "\<forall>kvs. v \<noteq> JObj kvs"
proof (cases c)
  case None
  then show ?thesis using idle by (simp add: idle_def)
next
  case (Some body)
  show ?thesis
  proof (cases "loads L body")
    case None
    with Some show ?thesis using idle by (simp add: idle_def foreign_def)
  next
    case (Some v)
    note v = this
    show ?thesis
    proof (cases "\<exists>kvs. v = JObj kvs")
      case False
      with v \<open>c = Some body\<close> show ?thesis using other by blast
    next
      case True
      then obtain kvs where kvs: "v = JObj kvs" by blast
      show ?thesis
      proof (cases "dict_get kvs ''actionId'' JNull = JStr action_id")
        case True
        with kvs v \<open>c = Some body\<close> show ?thesis using matched by blast
      next
        case False
        with kvs v \<open>c = Some body\<close> show ?thesis using idle by (simp add: idle_def foreign_def)
      qed
    qed
  qed
qed

lemma poll_loop_cases [consumes 1, case_names timeout matched other stuck continue]:
  assumes run: "poll_loop L self action_type action_id start_time w = (r, w')"
  obtains
    (timeout) "\<not> now w - start_time < max_wait_time"
      "r = Some (Inl (timeout_error action_type))" "w' = w"
  | (matched) body kvs where "now w - start_time < max_wait_time"
      "files w (result_file self) = Some body" "loads L body = Some (JObj kvs)"
      "dict_get kvs ''actionId'' JNull = JStr action_id"
      "r = Some (if truthy (dict_get kvs ''success'' JNull)
                 then Inr (decode_result L (dict_get kvs ''result'' (JStr [])))
                 else Inl (Exception (''Action failed: ''
                        @ py_str L (dict_get kvs ''error'' (JStr ''Unknown error'')))))"
      "w' = w\<lparr>files := (files w)(result_file self := None),
              trace := trace w @ [EvExists (result_file self), EvRead (result_file self) body,
                                  EvRemove (result_file self)]\<rparr>"
  | (other) body v where "now w - start_time < max_wait_time"
      "files w (result_file self) = Some body" "loads L body = Some v" "\<forall>kvs. v \<noteq> JObj kvs"
      "r = Some (Inl (no_attribute v ''get''))"
      "w' = w\<lparr>trace := trace w @ [EvExists (result_file self), EvRead (result_file self) body]\<rparr>"
  | (stuck) "now w - start_time < max_wait_time" "idle L action_id (files w (result_file self))"
      "script w = []" "poll_interval self \<le> 0" "r = None" "w' = after_poll self w"
  | (continue) "now w - start_time < max_wait_time" "idle L action_id (files w (result_file self))"
      "\<not> (script w = [] \<and> poll_interval self \<le> 0)"
      "poll_loop L self action_type action_id start_time (sleep (poll_interval self) (after_poll self w))
         = (r, w')"
proof (cases "now w - start_time < max_wait_time")
  case False
  from run poll_loop_timeout [OF False, of L self action_type action_id]
  have "r = Some (Inl (timeout_error action_type))" and "w' = w"
    by (simp_all add: timeout_error_def)
  with False show ?thesis
    by (rule timeout)
next
  case True
  show ?thesis
  proof (cases rule: content_cases [of L action_id "files w (result_file self)"])
    case idle
    note unfolded = run [unfolded poll_loop_idle [OF True idle]]
    show ?thesis
    proof (cases "script w = [] \<and> poll_interval self \<le> 0")
      case True
      with unfolded have "r = None" and "w' = after_poll self w"
        by simp_all
      with \<open>now w - start_time < max_wait_time\<close> idle True show ?thesis
        by (intro stuck) simp_all
    next
      case False
      with unfolded have "poll_loop L self action_type action_id start_time
          (sleep (poll_interval self) (after_poll self w)) = (r, w')"
        by simp
      with True idle False show ?thesis
        by (rule continue)
    qed
  next
    case (matched body kvs)
    from poll_loop_done [OF True poll_once_match [OF matched], of action_type] run
    have "r = Some (if truthy (dict_get kvs ''success'' JNull)
                 then Inr (decode_result L (dict_get kvs ''result'' (JStr [])))
                 else Inl (Exception (''Action failed: ''
                        @ py_str L (dict_get kvs ''error'' (JStr ''Unknown error'')))))"
      and "w' = w\<lparr>files := (files w)(result_file self := None),
              trace := trace w @ [EvExists (result_file self), EvRead (result_file self) body,
                                  EvRemove (result_file self)]\<rparr>"
      by simp_all
    with True matched show ?thesis
      by (rule that(2))
  next
    case (other body v)
    from poll_loop_done [OF True poll_once_other [OF other], of action_type action_id] run
    have "r = Some (Inl (no_attribute v ''get''))"
      and "w' = w\<lparr>trace := trace w @ [EvExists (result_file self), EvRead (result_file self) body]\<rparr>"
      by simp_all
    with True other show ?thesis
      by (rule that(3))
  qed
qed


lemma trace_sleep: "trace (sleep d w) = trace w @ [EvSleep d]"
  by (simp add: sleep_def split: list.splits)

lemma trace_after_poll:
  "trace (after_poll self w) = trace w @ poll_events (result_file self) (files w (result_file self))"
  by (simp add: after_poll_def)

lemma justified_idle_round:
  "justified L action_id p (poll_events p c @ EvSleep d # es) = justified L action_id p es"
  by (cases c) (simp_all add: poll_events_def)

lemma no_write_poll_events: "list_all (\<lambda>e. \<not> is_write e) (poll_events p c)"
  by (cases c) (simp_all add: poll_events_def)

lemma poll_loop_trace:
  "poll_loop L self action_type action_id start_time w = (r, w') \<Longrightarrow>
   \<exists>evs. trace w' = trace w @ evs \<and> justified L action_id (result_file self) evs
     \<and> list_all (\<lambda>e. \<not> is_write e) evs"
proof (induction w arbitrary: r w' rule: poll_induct [of start_time L action_id self])
  case (poll w)
  from poll.prems show ?case
  proof (cases rule: poll_loop_cases)
    case timeout
    then show ?thesis by simp
  next
    case (matched body kvs)
    then have "matches L action_id body"
      by (simp add: matches_def)
    with matched show ?thesis by simp
  next
    case (other body v)
    then show ?thesis by simp
  next
    case stuck
    then show ?thesis
      by (simp add: trace_after_poll no_write_poll_events)
         (cases "files w (result_file self)"; simp add: poll_events_def)
  next
    case continue
    from poll.IH [OF continue] obtain evs where
      evs: "trace w' = trace (sleep (poll_interval self) (after_poll self w)) @ evs"
        "justified L action_id (result_file self) evs" "list_all (\<lambda>e. \<not> is_write e) evs"
      by blast
    let ?evs = "poll_events (result_file self) (files w (result_file self))
      @ EvSleep (poll_interval self) # evs"
    from evs have "trace w' = trace w @ ?evs"
      by (simp add: trace_sleep trace_after_poll)
    moreover from evs have "justified L action_id (result_file self) ?evs"
      by (simp only: justified_idle_round)
    moreover from evs have "list_all (\<lambda>e. \<not> is_write e) ?evs"
      by (simp add: no_write_poll_events)
    ultimately show ?thesis by blast
  qed
qed


lemma poll_loop_ready:
  assumes "now w - start_time < max_wait_time" "result_ready L self action_id w body kvs"
  shows "poll_loop L self action_type action_id start_time w
    = (Some (if truthy (dict_get kvs ''success'' JNull)
             then Inr (decode_result L (dict_get kvs ''result'' (JStr [])))
             else Inl (Exception (''Action failed: ''
                    @ py_str L (dict_get kvs ''error'' (JStr ''Unknown error''))))),
       consumed self body w)"
  using assms poll_loop_done [OF assms(1) poll_once_match [of w self body L kvs action_id]]
  by (simp add: result_ready_def consumed_def)


lemma execute_action_trace:
  "\<exists>evs. trace (snd (execute_action L self action_type parameters action_id w))
      = trace w @ EvWrite (actions_file self)
          (dumps L (action_data action_type parameters (now w) action_id)) # evs
    \<and> justified L action_id (result_file self) evs
    \<and> list_all (\<lambda>e. \<not> is_write e) evs"
proof -
  let ?w1 = "write_file (actions_file self)
      (dumps L (action_data action_type parameters (now w) action_id)) w"
  obtain r w' where run: "poll_loop L self action_type action_id (now ?w1) ?w1 = (r, w')"
    by (cases "poll_loop L self action_type action_id (now ?w1) ?w1")
  from poll_loop_trace [OF run] obtain evs where
    "trace w' = trace ?w1 @ evs" "justified L action_id (result_file self) evs"
    "list_all (\<lambda>e. \<not> is_write e) evs"
    by blast
  with run show ?thesis
    by (auto simp: execute_action_def Let_def write_file_def)
qed














lemma dict_get_absent: "map_of kvs k = None \<Longrightarrow> dict_get kvs k d = d"
  by (induction kvs) (auto split: if_splits)

text \<open>
  C4. At an iteration of the poll loop that starts before the deadline and finds a result
  file that decodes to a dictionary with the identifier of the call and a \<^verbatim>\<open>success\<close> that
  is false or missing, the call removes the file and raises an \<^verbatim>\<open>Exception\<close>, which is not
  the timeout error, with the message \<^verbatim>\<open>Action failed: \<close> followed by the \<^verbatim>\<open>error\<close> field,
  or by \<^verbatim>\<open>Unknown error\<close> when there is no such field. The iteration writes nothing: the
  request is not sent again.
\<close>

theorem matching_failure_is_raised:
  assumes "now w - start_time < max_wait_time"
    and "result_ready L self action_id w body kvs"
    and "\<not> truthy (dict_get kvs ''success'' JNull)"
  shows "poll_loop L self action_type action_id start_time w
      = (Some (Inl (Exception (''Action failed: ''
           @ py_str L (dict_get kvs ''error'' (JStr ''Unknown error''))))),
         consumed self body w)
    \<and> files (consumed self body w) (result_file self) = None
    \<and> trace (consumed self body w)
        = trace w @ [EvExists (result_file self), EvRead (result_file self) body,
                     EvRemove (result_file self)]
    \<and> Exception (''Action failed: '' @ py_str L (dict_get kvs ''error'' (JStr ''Unknown error'')))
        \<noteq> timeout_error action_type
    \<and> (\<forall>e. dict_get kvs ''error'' (JStr ''Unknown error'') = JStr e \<longrightarrow>
          py_str L (dict_get kvs ''error'' (JStr ''Unknown error'')) = e)
    \<and> (map_of kvs ''error'' = None \<longrightarrow>
          py_str L (dict_get kvs ''error'' (JStr ''Unknown error'')) = ''Unknown error'')"
  using poll_loop_ready [OF assms(1,2), of action_type] assms(3)
  by (simp add: consumed_def timeout_error_def py_str_def dict_get_absent)

theorem matching_failure_is_raised_witness:
  "now (world_with [(''result.json'', failed_doc)] []) - 1000 < max_wait_time
   \<and> result_ready sample_lib sample_self ''a1'' (world_with [(''result.json'', failed_doc)] [])
         failed_doc failed_fields
   \<and> \<not> truthy (dict_get failed_fields ''success'' JNull)
   \<and> poll_loop sample_lib sample_self ''tap_by_index'' ''a1'' 1000
         (world_with [(''result.json'', failed_doc)] [])
       = (Some (Inl (Exception ''Action failed: no such element'')),
          consumed sample_self failed_doc (world_with [(''result.json'', failed_doc)] []))
   \<and> fst (execute_action sample_lib sample_self ''tap_by_index'' [(''index'', ''3'')] ''a1''
         (world_with [] (late_script bare_failed_doc)))
       = Some (Inl (Exception ''Action failed: Unknown error''))
   \<and> trace (snd (execute_action sample_lib sample_self ''tap_by_index'' [(''index'', ''3'')] ''a1''
         (world_with [] (late_script bare_failed_doc))))
       = [EvWrite ''actions.json'' ''<request>'', EvExists ''result.json'',
          EvSleep (1 / 10), EvExists ''result.json'', EvSleep (1 / 10),
          EvExists ''result.json'', EvRead ''result.json'' bare_failed_doc,
          EvRemove ''result.json'']"
proof -
  let ?w = "world_with [(''result.json'', failed_doc)] []"
  have h1: "now ?w - 1000 < max_wait_time"
    by code_simp
  have h2: "result_ready sample_lib sample_self ''a1'' ?w failed_doc failed_fields"
    by code_simp
  have h3: "\<not> truthy (dict_get failed_fields ''success'' JNull)"
    by code_simp
  have d: "''Action failed: '' @ py_str sample_lib (dict_get failed_fields ''error'' (JStr ''Unknown error''))
      = ''Action failed: no such element''"
    by code_simp
  have late: "fst (execute_action sample_lib sample_self ''tap_by_index'' [(''index'', ''3'')] ''a1''
         (world_with [] (late_script bare_failed_doc)))
       = Some (Inl (Exception ''Action failed: Unknown error''))"
    "trace (snd (execute_action sample_lib sample_self ''tap_by_index'' [(''index'', ''3'')] ''a1''
         (world_with [] (late_script bare_failed_doc))))
       = [EvWrite ''actions.json'' ''<request>'', EvExists ''result.json'',
          EvSleep (1 / 10), EvExists ''result.json'', EvSleep (1 / 10),
          EvExists ''result.json'', EvRead ''result.json'' bare_failed_doc,
          EvRemove ''result.json'']"
    by code_simp+
  from matching_failure_is_raised [OF h1 h2 h3, of "''tap_by_index''"] h1 h2 h3 late
  show ?thesis
    unfolding d by blast
qed

section \<open>Properties of the operations\<close>

lemma poll_once_same_paths:
  "result_file s1 = result_file s2 \<Longrightarrow> poll_once L s1 action_id w = poll_once L s2 action_id w"
  by (simp add: poll_once_def Let_def split: option.splits json.splits)

lemma poll_loop_same_paths:
  assumes rf: "result_file s1 = result_file s2" and pi: "poll_interval s1 = poll_interval s2"
  shows "poll_loop L s1 action_type action_id start_time w
    = poll_loop L s2 action_type action_id start_time w"
proof (induction w rule: poll_induct [of start_time L action_id s1])
  case (poll w)
  show ?case
  proof (cases "now w - start_time < max_wait_time")
    case False
    then show ?thesis by (simp add: poll_loop_timeout)
  next
    case True
    show ?thesis
    proof (cases "poll_once L s1 action_id w")
      case (Pair x w')
      show ?thesis
      proof (cases x)
        case (Some r)
        with Pair True poll_once_same_paths [OF rf, of L action_id w] show ?thesis
          by (simp add: poll_loop_done)
      next
        case None
        with Pair poll_once_None [of L s1 action_id w w']
        have idle1: "idle L action_id (files w (result_file s1))"
          by simp
        with rf have idle2: "idle L action_id (files w (result_file s2))"
          by simp
        have same: "after_poll s1 w = after_poll s2 w"
          using rf by (simp add: after_poll_def)
        show ?thesis
        proof (cases "script w = [] \<and> poll_interval s1 \<le> 0")
          case True
          with poll_loop_idle [OF \<open>now w - start_time < max_wait_time\<close> idle1]
            poll_loop_idle [OF \<open>now w - start_time < max_wait_time\<close> idle2] pi same
          show ?thesis by simp
        next
          case False
          from poll.IH [OF \<open>now w - start_time < max_wait_time\<close> idle1 False]
            poll_loop_idle [OF \<open>now w - start_time < max_wait_time\<close> idle1, of action_type]
            poll_loop_idle [OF \<open>now w - start_time < max_wait_time\<close> idle2, of action_type]
            pi same False
          show ?thesis by auto
        qed
      qed
    qed
  qed
qed

lemma execute_action_ignores_cache:
  "execute_action L (self\<lparr>clickable_elements_cache := c\<rparr>) action_type parameters action_id w
    = execute_action L self action_type parameters action_id w"
  using poll_loop_same_paths [where ?s1.0 = "self\<lparr>clickable_elements_cache := c\<rparr>" and ?s2.0 = self]
  by (simp add: execute_action_def)

lemma poll_loop_no_ValueError:
  "poll_loop L self action_type action_id start_time w = (r, w') \<Longrightarrow> r \<noteq> Some (Inl (ValueError m))"
proof (induction w rule: poll_induct [of start_time L action_id self])
  case (poll w)
  from poll.prems show ?case
  proof (cases rule: poll_loop_cases)
    case timeout
    then show ?thesis by (simp add: timeout_error_def)
  next
    case (matched body kvs)
    then show ?thesis by simp
  next
    case (other body v)
    then show ?thesis by (simp add: no_attribute_def)
  next
    case stuck
    then show ?thesis by simp
  next
    case continue
    then show ?thesis by (rule poll.IH)
  qed
qed

lemma execute_action_no_ValueError:
  "fst (execute_action L self action_type parameters action_id w) \<noteq> Some (Inl (ValueError m))"
proof -
  let ?w1 = "write_file (actions_file self)
      (dumps L (action_data action_type parameters (now w) action_id)) w"
  obtain r w' where run: "poll_loop L self action_type action_id (now ?w1) ?w1 = (r, w')"
    by (cases "poll_loop L self action_type action_id (now ?w1) ?w1")
  from poll_loop_no_ValueError [OF run] run show ?thesis
    by (simp add: execute_action_def Let_def)
qed


lemma execute_action_same_paths:
  assumes "actions_file s1 = actions_file s2" "result_file s1 = result_file s2"
    "poll_interval s1 = poll_interval s2"
  shows "execute_action L s1 action_type parameters action_id w
    = execute_action L s2 action_type parameters action_id w"
  using assms poll_loop_same_paths [OF assms(2,3)]
  by (simp add: execute_action_def)

lemma get_state_attempts_result_ignores_cache:
  "fst (get_state_attempts L n (self\<lparr>clickable_elements_cache := c\<rparr>) w)
     = fst (get_state_attempts L n self w)
   \<and> snd (snd (get_state_attempts L n (self\<lparr>clickable_elements_cache := c\<rparr>) w))
     = snd (snd (get_state_attempts L n self w))"
proof (induction n arbitrary: w)
  case 0
  then show ?case by simp
next
  case (Suc n)
  then show ?case
    by (simp add: Let_def split: option.splits json.splits sum.splits)
qed

lemma get_state_ignores_cache:
  "fst (get_state L (self\<lparr>clickable_elements_cache := c\<rparr>) w) = fst (get_state L self w)"
proof -
  obtain r s' w' where a: "get_state_attempts L max_retries self w = (r, s', w')"
    by (cases "get_state_attempts L max_retries self w")
  obtain r2 s2 w2 where b: "get_state_attempts L max_retries (self\<lparr>clickable_elements_cache := c\<rparr>) w
      = (r2, s2, w2)"
    by (cases "get_state_attempts L max_retries (self\<lparr>clickable_elements_cache := c\<rparr>) w")
  from get_state_attempts_result_ignores_cache [where L = L and n = max_retries and self = self and c = c and w = w] a b
  have "r2 = r" by simp
  with a b show ?thesis
    by (simp add: get_state_def split: sum.splits option.splits)
qed

text \<open>
  C10. \<^verbatim>\<open>tap_by_index\<close> gives the same result and the same world whatever the cached
  element tree is; its first event is the write of the request with action type
  \<^verbatim>\<open>tap_by_index\<close> and parameters \<^verbatim>\<open>{"index": str(index)}\<close>, and it writes nothing else; it
  never raises a \<^verbatim>\<open>ValueError\<close>, the error of the resolver. No other operation depends on the
  cached tree either, so none of them calls the resolver.
\<close>

theorem tap_by_index_bypasses_resolver:
  "tap_by_index L (self\<lparr>clickable_elements_cache := c\<rparr>) index action_id w
     = tap_by_index L self index action_id w
   \<and> (\<exists>evs. trace (snd (tap_by_index L self index action_id w))
          = trace w @ EvWrite (actions_file self)
              (dumps L (action_data ''tap_by_index'' [(''index'', str_int index)] (now w) action_id))
            # evs
        \<and> list_all (\<lambda>e. \<not> is_write e) evs)
   \<and> fst (tap_by_index L self index action_id w) \<noteq> Some (Inl (ValueError m))
   \<and> swipe L (self\<lparr>clickable_elements_cache := c\<rparr>) x1 y1 x2 y2 ms action_id w
       = swipe L self x1 y1 x2 y2 ms action_id w
   \<and> drag L (self\<lparr>clickable_elements_cache := c\<rparr>) x1 y1 x2 y2 ms action_id w
       = drag L self x1 y1 x2 y2 ms action_id w
   \<and> input_text L (self\<lparr>clickable_elements_cache := c\<rparr>) txt index clear action_id w
       = input_text L self txt index clear action_id w
   \<and> back_op L (self\<lparr>clickable_elements_cache := c\<rparr>) action_id w = back_op L self action_id w
   \<and> press_key L (self\<lparr>clickable_elements_cache := c\<rparr>) keycode action_id w
       = press_key L self keycode action_id w
   \<and> start_app L (self\<lparr>clickable_elements_cache := c\<rparr>) package activity action_id w
       = start_app L self package activity action_id w
   \<and> take_screenshot L (self\<lparr>clickable_elements_cache := c\<rparr>) action_id w
       = take_screenshot L self action_id w
   \<and> list_packages L (self\<lparr>clickable_elements_cache := c\<rparr>) flag action_id w
       = list_packages L self flag action_id w
   \<and> get_apps L (self\<lparr>clickable_elements_cache := c\<rparr>) flag action_id w
       = get_apps L self flag action_id w
   \<and> fst (complete L (self\<lparr>clickable_elements_cache := c\<rparr>) succ rsn action_id w)
       = fst (complete L self succ rsn action_id w)
   \<and> fst (remember (self\<lparr>clickable_elements_cache := c\<rparr>) information)
       = fst (remember self information)
   \<and> memory (snd (remember (self\<lparr>clickable_elements_cache := c\<rparr>) information))
       = memory (snd (remember self information))
   \<and> get_memory (self\<lparr>clickable_elements_cache := c\<rparr>) = get_memory self
   \<and> fst (get_state L (self\<lparr>clickable_elements_cache := c\<rparr>) w) = fst (get_state L self w)"
proof -
  have tap: "\<exists>evs. trace (snd (tap_by_index L self index action_id w))
          = trace w @ EvWrite (actions_file self)
              (dumps L (action_data ''tap_by_index'' [(''index'', str_int index)] (now w) action_id))
            # evs
        \<and> list_all (\<lambda>e. \<not> is_write e) evs"
    using execute_action_trace [of L self "''tap_by_index''" "[(''index'', str_int index)]" action_id w]
    unfolding tap_by_index_def by blast
  have nf: "fst (tap_by_index L self index action_id w) \<noteq> Some (Inl (ValueError m))"
    unfolding tap_by_index_def by (rule execute_action_no_ValueError)
  have fin: "fst (complete L (self\<lparr>clickable_elements_cache := c\<rparr>) succ rsn action_id w)
       = fst (complete L self succ rsn action_id w)"
    by (simp add: complete_def Let_def
          execute_action_same_paths [where ?s1.0 = "self\<lparr>clickable_elements_cache := c, success := a, reason := b, finished := True\<rparr>"
            and ?s2.0 = "self\<lparr>success := a, reason := b, finished := True\<rparr>" for a b])
  have mem: "fst (remember (self\<lparr>clickable_elements_cache := c\<rparr>) information)
       = fst (remember self information)"
    "memory (snd (remember (self\<lparr>clickable_elements_cache := c\<rparr>) information))
       = memory (snd (remember self information))"
    by (simp_all add: remember_def Let_def)
  show ?thesis
    using tap nf fin mem get_state_ignores_cache [where L = L and self = self and c = c and w = w]
    by (simp add: tap_by_index_def swipe_def drag_def input_text_def back_op_def press_key_def
          start_app_def take_screenshot_def list_packages_def get_apps_def get_memory_def
          execute_action_ignores_cache)
qed

theorem tap_by_index_bypasses_resolver_witness:
  "extract_element_coordinates_by_index sample_lib
      (sample_self\<lparr>clickable_elements_cache := example_tree\<rparr>) 99
     = Inl (ValueError ''No element found with index 99'')
   \<and> fst (tap_by_index sample_lib (sample_self\<lparr>clickable_elements_cache := example_tree\<rparr>) 99 ''a1''
          (world_with [(''result.json'', ok_doc)] []))
     = Some (Inr (JInt 7))
   \<and> tap_by_index sample_lib (sample_self\<lparr>clickable_elements_cache := example_tree\<rparr>) 99 ''a1''
          (world_with [(''result.json'', ok_doc)] [])
     = tap_by_index sample_lib sample_self 99 ''a1'' (world_with [(''result.json'', ok_doc)] [])
   \<and> action_data ''tap_by_index'' [(''index'', str_int 99)] 1000 ''a1''
     = JObj [(''actionType'', JStr ''tap_by_index''),
             (''parameters'', JObj [(''index'', JStr ''99'')]),
             (''timestamp'', JInt 1000000), (''actionId'', JStr ''a1'')]"
proof -
  have e: "extract_element_coordinates_by_index sample_lib
      (sample_self\<lparr>clickable_elements_cache := example_tree\<rparr>) 99
     = Inl (ValueError ''No element found with index 99'')"
    "fst (tap_by_index sample_lib (sample_self\<lparr>clickable_elements_cache := example_tree\<rparr>) 99 ''a1''
          (world_with [(''result.json'', ok_doc)] []))
     = Some (Inr (JInt 7))"
    "action_data ''tap_by_index'' [(''index'', str_int 99)] 1000 ''a1''
     = JObj [(''actionType'', JStr ''tap_by_index''),
             (''parameters'', JObj [(''index'', JStr ''99'')]),
             (''timestamp'', JInt 1000000), (''actionId'', JStr ''a1'')]"
    by code_simp+
  from tap_by_index_bypasses_resolver [where L = sample_lib and self = sample_self
      and c = example_tree and index = 99 and action_id = "''a1''"
      and w = "world_with [(''result.json'', ok_doc)] []"] e
  show ?thesis
    by blast
qed

text \<open>
  C8. Whatever the channel then does, \<^verbatim>\<open>complete\<close> leaves \<^verbatim>\<open>finished\<close> true, \<^verbatim>\<open>success\<close> equal
  to the flag, and \<^verbatim>\<open>reason\<close> equal to the given string, or to the canned message for the
  flag when the string is empty; and its first event is the write of a request with action
  type \<^verbatim>\<open>complete\<close> whose parameters are \<^verbatim>\<open>str(success)\<close> and the reason as given.
  \<^verbatim>\<open>complete(False, "")\<close> gives the reason \<^verbatim>\<open>Task failed.\<close> and \<^verbatim>\<open>complete(True, "done")\<close> the
  reason \<^verbatim>\<open>done\<close>.
\<close>

theorem complete_sets_status:
  "finished (snd (complete L self succ rsn action_id w))
   \<and> success (snd (complete L self succ rsn action_id w)) = Some succ
   \<and> reason (snd (complete L self succ rsn action_id w))
       = Some (if rsn = [] then (if succ then ''Task completed successfully.'' else ''Task failed.'')
               else rsn)
   \<and> (\<exists>evs. trace (snd (fst (complete L self succ rsn action_id w)))
          = trace w @ EvWrite (actions_file self)
              (dumps L (action_data ''complete''
                 [(''success'', str_bool succ), (''reason'', rsn)] (now w) action_id))
            # evs
        \<and> list_all (\<lambda>e. \<not> is_write e) evs)
   \<and> finished (snd (complete L self False [] action_id w))
   \<and> success (snd (complete L self False [] action_id w)) = Some False
   \<and> reason (snd (complete L self False [] action_id w)) = Some ''Task failed.''
   \<and> reason (snd (complete L self True ''done'' action_id w)) = Some ''done''
   \<and> reason (snd (complete L self True [] action_id w)) = Some ''Task completed successfully.''"
proof -
  let ?self' = "self\<lparr>success := Some succ,
      reason := Some (if rsn \<noteq> [] then rsn
                      else if succ then ''Task completed successfully.'' else ''Task failed.''),
      finished := True\<rparr>"
  let ?run = "execute_action L ?self' ''complete''
      [(''success'', str_bool succ), (''reason'', rsn)] action_id w"
  have "snd (and_then ?run (\<lambda>result. Inr ())) = snd ?run"
    by (cases ?run) (auto simp: and_then_def split: option.splits sum.splits)
  moreover from execute_action_trace [of L ?self' "''complete''"
      "[(''success'', str_bool succ), (''reason'', rsn)]" action_id w]
  obtain evs where "trace (snd ?run)
      = trace w @ EvWrite (actions_file self)
          (dumps L (action_data ''complete''
             [(''success'', str_bool succ), (''reason'', rsn)] (now w) action_id)) # evs"
    "list_all (\<lambda>e. \<not> is_write e) evs"
    by auto
  ultimately have sent: "\<exists>evs. trace (snd (fst (complete L self succ rsn action_id w)))
          = trace w @ EvWrite (actions_file self)
              (dumps L (action_data ''complete''
                 [(''success'', str_bool succ), (''reason'', rsn)] (now w) action_id))
            # evs
        \<and> list_all (\<lambda>e. \<not> is_write e) evs"
    by (auto simp: complete_def Let_def)
  then show ?thesis
    by (simp add: complete_def Let_def)
qed

theorem complete_sets_status_witness:
  "finished (snd (complete sample_lib sample_self False [] ''a1''
      (world_with [(''result.json'', ok_doc)] [])))
   \<and> success (snd (complete sample_lib sample_self False [] ''a1''
      (world_with [(''result.json'', ok_doc)] []))) = Some False
   \<and> reason (snd (complete sample_lib sample_self False [] ''a1''
      (world_with [(''result.json'', ok_doc)] []))) = Some ''Task failed.''
   \<and> reason (snd (complete sample_lib sample_self True ''done'' ''a1''
      (world_with [(''result.json'', ok_doc)] []))) = Some ''done''
   \<and> fst (fst (complete sample_lib sample_self False [] ''a1''
      (world_with [(''result.json'', ok_doc)] []))) = Some (Inr ())
   \<and> action_data ''complete'' [(''success'', str_bool False), (''reason'', [])] 1000 ''a1''
       = JObj [(''actionType'', JStr ''complete''),
               (''parameters'', JObj [(''success'', JStr ''False''), (''reason'', JStr [])]),
               (''timestamp'', JInt 1000000), (''actionId'', JStr ''a1'')]
   \<and> fst (fst (complete sample_lib slow_self True ''done'' ''a1'' (world_with [] [])))
       = Some (Inl (TimeoutError ''Action complete timed out after 30.0s''))
   \<and> finished (snd (complete sample_lib slow_self True ''done'' ''a1'' (world_with [] [])))"
proof -
  have e: "fst (fst (complete sample_lib sample_self False [] ''a1''
      (world_with [(''result.json'', ok_doc)] []))) = Some (Inr ())"
    "action_data ''complete'' [(''success'', str_bool False), (''reason'', [])] 1000 ''a1''
       = JObj [(''actionType'', JStr ''complete''),
               (''parameters'', JObj [(''success'', JStr ''False''), (''reason'', JStr [])]),
               (''timestamp'', JInt 1000000), (''actionId'', JStr ''a1'')]"
    "fst (fst (complete sample_lib slow_self True ''done'' ''a1'' (world_with [] [])))
       = Some (Inl (TimeoutError ''Action complete timed out after 30.0s''))"
    by code_simp+
  from complete_sets_status [where L = sample_lib and self = sample_self and action_id = "''a1''"
      and w = "world_with [(''result.json'', ok_doc)] []"]
    complete_sets_status [where L = sample_lib and self = slow_self and action_id = "''a1''"
      and w = "world_with [] []" and succ = True and rsn = "''done''"] e
  show ?thesis
    by blast
qed

section \<open>Properties of the state reader\<close>

lemma get_state_attempts_unavailable:
  "unavailable L (state_file self) n (files w) (script w) \<Longrightarrow>
   \<exists>w' evs. get_state_attempts L n self w = (Inr None, self, w')
     \<and> trace w' = trace w @ evs
     \<and> length (filter is_exists evs) = n \<and> length (filter is_sleep evs) = n"
proof (induction n arbitrary: w)
  case 0
  then show ?case by simp
next
  case (Suc n)
  let ?d = "poll_interval self"
  let ?p = "state_file self"
  show ?case
  proof (cases "files w ?p")
    case None
    let ?w1 = "sleep ?d (log_event (EvExists ?p) w)"
    from Suc.prems have "unavailable L ?p n (files ?w1) (script ?w1)"
      by (cases "script w") (simp_all add: sleep_def log_event_def)
    from Suc.IH [OF this] obtain w' evs where
      "get_state_attempts L n self ?w1 = (Inr None, self, w')" "trace w' = trace ?w1 @ evs"
      "length (filter is_exists evs) = n" "length (filter is_sleep evs) = n"
      by blast
    with None show ?thesis
      by (simp add: trace_sleep log_event_def)
  next
    case (Some body)
    let ?w1 = "sleep ?d (log_event (EvRead ?p body) (log_event (EvExists ?p) w))"
    from Suc.prems Some have bad: "loads L body = None"
      by (simp add: unreadable_def)
    from Suc.prems have "unavailable L ?p n (files ?w1) (script ?w1)"
      by (cases "script w") (simp_all add: sleep_def log_event_def)
    from Suc.IH [OF this] obtain w' evs where
      "get_state_attempts L n self ?w1 = (Inr None, self, w')" "trace w' = trace ?w1 @ evs"
      "length (filter is_exists evs) = n" "length (filter is_sleep evs) = n"
      by blast
    with Some bad show ?thesis
      by (simp add: trace_sleep log_event_def)
  qed
qed


lemma get_state_attempts_cache:
  "get_state_attempts L n self w = (r, self', w') \<Longrightarrow>
   (case r of
      Inr (Some t) \<Rightarrow> clickable_elements_cache self' = fst (snd (snd t))
    | Inr None \<Rightarrow> self' = self
    | Inl e \<Rightarrow> True)"
proof (induction n arbitrary: w)
  case 0
  then show ?case by auto
next
  case (Suc n)
  then show ?case
    by (auto simp: Let_def split: option.splits json.splits sum.splits)
qed





text \<open>
  C9, as amended. After a call of \<^verbatim>\<open>get_state\<close> that returns a snapshot read from the state
  file, the cached tree is the tree of that snapshot. A call that uses up its attempts and
  returns the sentinel leaves the wrapper, and so the cached tree, as it was before the call.
\<close>

theorem cache_follows_read_snapshot:
  "(fst (get_state_attempts L max_retries self w) = Inr (Some t) \<longrightarrow>
       fst (get_state L self w) = t
     \<and> clickable_elements_cache (fst (snd (get_state L self w))) = fst (snd (snd t)))
   \<and> (fst (get_state_attempts L max_retries self w) = Inr None \<longrightarrow>
       fst (get_state L self w) = sentinel ''State not available''
     \<and> fst (snd (get_state L self w)) = self)
   \<and> (unavailable L (state_file self) max_retries (files w) (script w) \<longrightarrow>
       fst (get_state_attempts L max_retries self w) = Inr None)
   \<and> (files w (state_file self) = Some body \<and> loads L body = Some (JObj kvs)
        \<and> py_len (dict_get kvs ''a11yTree'' (JList [])) = Inr k \<longrightarrow>
       fst (get_state L self w)
         = (dict_get kvs ''formattedText'' (JStr []), dict_get kvs ''focusedText'' (JStr []),
            dict_get kvs ''a11yTree'' (JList []), dict_get kvs ''phoneState'' (JObj []))
     \<and> clickable_elements_cache (fst (snd (get_state L self w)))
         = dict_get kvs ''a11yTree'' (JList []))"
proof -
  obtain r s' w' where a: "get_state_attempts L max_retries self w = (r, s', w')"
    by (cases "get_state_attempts L max_retries self w")
  note c = get_state_attempts_cache [OF a]
  have read: "fst (get_state_attempts L max_retries self w) = Inr (Some t) \<longrightarrow>
       fst (get_state L self w) = t
     \<and> clickable_elements_cache (fst (snd (get_state L self w))) = fst (snd (snd t))"
    using a c by (auto simp: get_state_def)
  have none: "fst (get_state_attempts L max_retries self w) = Inr None \<longrightarrow>
       fst (get_state L self w) = sentinel ''State not available''
     \<and> fst (snd (get_state L self w)) = self"
    using a c by (auto simp: get_state_def sentinel_def)
  have un: "unavailable L (state_file self) max_retries (files w) (script w) \<longrightarrow>
       fst (get_state_attempts L max_retries self w) = Inr None"
    using get_state_attempts_unavailable [of L self max_retries w] by auto
  have first: "files w (state_file self) = Some body \<and> loads L body = Some (JObj kvs)
        \<and> py_len (dict_get kvs ''a11yTree'' (JList [])) = Inr k \<longrightarrow>
       fst (get_state L self w)
         = (dict_get kvs ''formattedText'' (JStr []), dict_get kvs ''focusedText'' (JStr []),
            dict_get kvs ''a11yTree'' (JList []), dict_get kvs ''phoneState'' (JObj []))
     \<and> clickable_elements_cache (fst (snd (get_state L self w)))
         = dict_get kvs ''a11yTree'' (JList [])"
    by (simp add: get_state_def max_retries_def eval_nat_numeral Let_def)
  from read none un first show ?thesis
    by blast
qed

theorem cache_follows_read_snapshot_witness:
  "fst (get_state_attempts state_lib max_retries seen_self (world_with [] [])) = Inr None
   \<and> unavailable state_lib (state_file seen_self) max_retries
        (files (world_with [] [])) (script (world_with [] []))
   \<and> fst (snd (get_state state_lib seen_self (world_with [] []))) = seen_self
   \<and> files (world_with [(''state.json'', state_doc)] []) (state_file seen_self) = Some state_doc
   \<and> loads state_lib state_doc = Some (JObj state_fields)
   \<and> py_len (dict_get state_fields ''a11yTree'' (JList [])) = Inr 1
   \<and> clickable_elements_cache
        (fst (snd (get_state state_lib seen_self (world_with [(''state.json'', state_doc)] []))))
       = JList [JObj [(''index'', JInt 1), (''bounds'', JStr ''0,0,10,10'')]]
   \<and> fst (get_state_attempts state_lib max_retries seen_self
        (world_with [(''state.json'', state_doc)] []))
       = Inr (Some (JStr ''Home'', JStr [],
           JList [JObj [(''index'', JInt 1), (''bounds'', JStr ''0,0,10,10'')]],
           JObj [(''packageName'', JStr ''com.example'')]))"
proof -
  let ?w = "world_with [(''state.json'', state_doc)] []"
  have h: "unavailable state_lib (state_file seen_self) max_retries
        (files (world_with [] [])) (script (world_with [] []))"
    "files ?w (state_file seen_self) = Some state_doc"
    "loads state_lib state_doc = Some (JObj state_fields)"
    "py_len (dict_get state_fields ''a11yTree'' (JList [])) = Inr 1"
    "dict_get state_fields ''a11yTree'' (JList [])
       = JList [JObj [(''index'', JInt 1), (''bounds'', JStr ''0,0,10,10'')]]"
    "fst (get_state_attempts state_lib max_retries seen_self ?w)
       = Inr (Some (JStr ''Home'', JStr [],
           JList [JObj [(''index'', JInt 1), (''bounds'', JStr ''0,0,10,10'')]],
           JObj [(''packageName'', JStr ''com.example'')]))"
    by code_simp+
  from cache_follows_read_snapshot [where L = state_lib and self = seen_self
      and w = "world_with [] []"] h(1)
  have a: "fst (get_state_attempts state_lib max_retries seen_self (world_with [] [])) = Inr None"
    "fst (snd (get_state state_lib seen_self (world_with [] []))) = seen_self"
    by blast+
  from cache_follows_read_snapshot [where L = state_lib and self = seen_self and w = ?w
      and body = state_doc and kvs = state_fields and k = 1] h
  have b: "clickable_elements_cache (fst (snd (get_state state_lib seen_self ?w)))
       = JList [JObj [(''index'', JInt 1), (''bounds'', JStr ''0,0,10,10'')]]"
    by simp
  from a b h show ?thesis
    by blast
qed

theorem cache_kept_by_sentinel_counterexample:
  "fst (snd (snd (fst (get_state state_lib
      (fst (snd (get_state state_lib sample_self (world_with [(''state.json'', state_doc)] []))))
      (world_with [] []))))) = JList []
   \<and> clickable_elements_cache (fst (snd (get_state state_lib
      (fst (snd (get_state state_lib sample_self (world_with [(''state.json'', state_doc)] []))))
      (world_with [] []))))
       = JList [JObj [(''index'', JInt 1), (''bounds'', JStr ''0,0,10,10'')]]
   \<and> clickable_elements_cache (fst (snd (get_state state_lib
      (fst (snd (get_state state_lib sample_self (world_with [(''state.json'', state_doc)] []))))
      (world_with [] []))))
       \<noteq> fst (snd (snd (fst (get_state state_lib
      (fst (snd (get_state state_lib sample_self (world_with [(''state.json'', state_doc)] []))))
      (world_with [] [])))))"
  by code_simp

end
